theory Spec2Isabelle
  imports Main
begin

section \<open>Data model of BinarySearchTree.ts\<close>

text \<open>
  The interface \<open>BinarySearchTreeNode<T>\<close> has a payload \<open>data\<close> and two child
  fields of type \<open>BinarySearchTreeNode<T> | null | undefined\<close> (an omitted optional field
  reads as \<open>undefined\<close>). A child slot is a \<open>link\<close>; a value of the interface type
  itself, which can be neither \<open>null\<close> nor \<open>undefined\<close>, is a \<open>BinarySearchTreeNode\<close>.

  The payload type \<open>T\<close> is compared with \<open><\<close>, \<open>>\<close> and \<open>===\<close>; it is taken to
  be linearly ordered, as numbers (without NaN) and strings are. The nodes of a tree are
  owned by their parent only (no sharing, no cycle), so the in-place field updates of the
  source are the rebuilding of the term here.
\<close>

datatype 'a BinarySearchTreeNode =
  Node (left: "'a link") (data: 'a) (right: "'a link")
and 'a link = Null | Undefined | Ref "'a BinarySearchTreeNode"

text \<open>
  The class has the two private fields \<open>_nodeCount\<close> (initially 0) and \<open>_root\<close>
  (initially \<open>null\<close>). The counter is a JavaScript number that only \<open>++\<close> and \<open>--\<close>
  touch; both are exact on the integers below \<open>2^53\<close> in absolute value, and it is
  modelled as an integer.
\<close>

record 'a BinarySearchTree =
  nodeCount :: int
  root :: "'a link"

definition newTree :: "'a BinarySearchTree" where
  "newTree = \<lparr>nodeCount = 0, root = Null\<rparr>"

section \<open>Operations\<close>

definition size_bst :: "'a BinarySearchTree \<Rightarrow> int" where
  "size_bst t = nodeCount t"

definition isEmpty :: "'a BinarySearchTree \<Rightarrow> bool" where
  "isEmpty t = (size_bst t = 0)"

text \<open>
  \<open>recursiveContains\<close>: the test \<open>node == null\<close> is the loose equality, true of
  \<open>null\<close> and of \<open>undefined\<close>.
\<close>

fun recursiveContains :: "('a::linorder) link \<Rightarrow> 'a \<Rightarrow> bool" where
  "recursiveContains Null elem = False"
| "recursiveContains Undefined elem = False"
| "recursiveContains (Ref (Node l d r)) elem =
     (if elem < d then recursiveContains l elem
      else if elem > d then recursiveContains r elem
      else True)"

definition contains :: "('a::linorder) BinarySearchTree \<Rightarrow> 'a \<Rightarrow> bool" where
  "contains t elem = recursiveContains (root t) elem"

text \<open>
  \<open>recursiveAdd\<close>: in the base case the source declares a new block-scoped constant
  \<open>node\<close> holding the fresh leaf; that constant goes out of scope at the end of the
  block, and \<open>return node\<close> returns the parameter, which is still \<open>null\<close> (or
  \<open>undefined\<close>). Otherwise it descends left when \<open>elem === node.data\<close> and right
  when not, stores the result in that child field and returns the node.
\<close>

fun recursiveAdd :: "'a link \<Rightarrow> 'a \<Rightarrow> 'a link" where
  "recursiveAdd Null elem = Null"
| "recursiveAdd Undefined elem = Undefined"
| "recursiveAdd (Ref (Node l d r)) elem =
     (if elem = d then Ref (Node (recursiveAdd l elem) d r)
      else Ref (Node l d (recursiveAdd r elem)))"

definition add :: "('a::linorder) BinarySearchTree \<Rightarrow> 'a \<Rightarrow> bool \<times> 'a BinarySearchTree" where
  "add t elem =
     (if contains t elem then (False, t)
      else (True, \<lparr>nodeCount = nodeCount t + 1, root = recursiveAdd (root t) elem\<rparr>))"

text \<open>
  \<open>findMin\<close> takes a node (not a link): \<open>while (node.left != null) node = node.left\<close>.
\<close>

fun findMin :: "'a BinarySearchTreeNode \<Rightarrow> 'a BinarySearchTreeNode" where
  "findMin (Node (Ref n) d r) = findMin n"
| "findMin (Node Null d r) = Node Null d r"
| "findMin (Node Undefined d r) = Node Undefined d r"

fun findMax :: "'a BinarySearchTreeNode \<Rightarrow> 'a BinarySearchTreeNode" where
  "findMax (Node l d (Ref n)) = findMax n"
| "findMax (Node l d Null) = Node l d Null"
| "findMax (Node l d Undefined) = Node l d Undefined"

text \<open>
  \<open>recursiveRemove\<close>: an absent node gives \<open>null\<close>. At the node found, a node without
  left child is replaced by its right link, a node without right child by its left link,
  and a node with both children takes the payload of the leftmost node of its right
  subtree, which is then removed from the right subtree.
\<close>

fun recursiveRemove :: "('a::linorder) link \<Rightarrow> 'a \<Rightarrow> 'a link" where
  "recursiveRemove Null elem = Null"
| "recursiveRemove Undefined elem = Null"
| "recursiveRemove (Ref (Node l d r)) elem =
     (if elem < d then Ref (Node (recursiveRemove l elem) d r)
      else if elem > d then Ref (Node l d (recursiveRemove r elem))
      else (case l of
              Null \<Rightarrow> r
            | Undefined \<Rightarrow> r
            | Ref ln \<Rightarrow>
                (case r of
                   Null \<Rightarrow> l
                 | Undefined \<Rightarrow> l
                 | Ref rn \<Rightarrow>
                     Ref (Node l (data (findMin rn))
                            (recursiveRemove r (data (findMin rn)))))))"

definition remove :: "('a::linorder) BinarySearchTree \<Rightarrow> 'a \<Rightarrow> bool \<times> 'a BinarySearchTree" where
  "remove t elem =
     (if contains t elem
      then (True, \<lparr>nodeCount = nodeCount t - 1, root = recursiveRemove (root t) elem\<rparr>)
      else (False, t))"

fun recursiveHeight :: "'a link \<Rightarrow> int" where
  "recursiveHeight Null = 0"
| "recursiveHeight Undefined = 0"
| "recursiveHeight (Ref (Node l d r)) = max (recursiveHeight l) (recursiveHeight r) + 1"

definition height :: "'a BinarySearchTree \<Rightarrow> int" where
  "height t = recursiveHeight (root t)"

section \<open>Sequences of calls\<close>

text \<open>
  The two mutating public methods, as calls; \<open>perform\<close> makes one call and drops its
  result, \<open>run\<close> makes a sequence of calls from left to right.
\<close>

datatype 'a call = Add 'a | Remove 'a

fun perform :: "('a::linorder) BinarySearchTree \<Rightarrow> 'a call \<Rightarrow> 'a BinarySearchTree" where
  "perform t (Add v) = snd (add t v)"
| "perform t (Remove v) = snd (remove t v)"

fun run :: "('a::linorder) BinarySearchTree \<Rightarrow> 'a call list \<Rightarrow> 'a BinarySearchTree" where
  "run t [] = t"
| "run t (c # cs) = run (perform t c) cs"

fun isAdd :: "'a call \<Rightarrow> bool" where
  "isAdd (Add v) = True"
| "isAdd (Remove v) = False"

section \<open>Specification vocabulary\<close>

text \<open>The number of nodes reachable from a link, and the payloads stored below it.\<close>

fun countNodes :: "'a link \<Rightarrow> nat" where
  "countNodes Null = 0"
| "countNodes Undefined = 0"
| "countNodes (Ref (Node l d r)) = countNodes l + 1 + countNodes r"

fun elems :: "'a link \<Rightarrow> 'a set" where
  "elems Null = {}"
| "elems Undefined = {}"
| "elems (Ref (Node l d r)) = elems l \<union> {d} \<union> elems r"

text \<open>
  A valid binary search tree: below every node, the left subtree holds only smaller
  payloads and the right subtree only greater ones.
\<close>

fun bst :: "('a::linorder) link \<Rightarrow> bool" where
  "bst Null = True"
| "bst Undefined = True"
| "bst (Ref (Node l d r)) =
     (bst l \<and> bst r \<and> (\<forall>x \<in> elems l. x < d) \<and> (\<forall>x \<in> elems r. d < x))"

section \<open>Insertion links nothing\<close>

lemma recursiveAdd_id: "recursiveAdd n elem = n"
  by (induction n elem rule: recursiveAdd.induct) simp_all

lemma root_add: "root (snd (add t v)) = root t"
  by (simp add: add_def recursiveAdd_id)

lemma root_remove_Null: "root t = Null \<Longrightarrow> snd (remove t v) = t"
  by (simp add: remove_def contains_def)

lemma root_perform_Null: "root t = Null \<Longrightarrow> root (perform t c) = Null"
  by (cases c) (simp_all add: root_add root_remove_Null)

lemma root_run_Null: "root t = Null \<Longrightarrow> root (run t cs) = Null"
  by (induction cs arbitrary: t) (simp_all add: root_perform_Null)

lemma nodeCount_perform_Null:
  "root t = Null \<Longrightarrow> nodeCount (perform t c) = nodeCount t + (if isAdd c then 1 else 0)"
  by (cases c) (simp_all add: add_def remove_def contains_def)

lemma nodeCount_run_Null:
  "root t = Null \<Longrightarrow> nodeCount (run t cs) = nodeCount t + int (length (filter isAdd cs))"
proof (induction cs arbitrary: t)
  case Nil
  show ?case by simp
next
  case (Cons c cs)
  have "root (perform t c) = Null"
    using Cons.prems by (rule root_perform_Null)
  then have "nodeCount (run (perform t c) cs)
      = nodeCount (perform t c) + int (length (filter isAdd cs))"
    by (rule Cons.IH)
  then show ?case
    using Cons.prems by (simp add: nodeCount_perform_Null)
qed

text \<open>
  C10. Starting from a new tree, after every sequence of \<open>add\<close> and \<open>remove\<close> calls the
  root is still \<open>null\<close>; in that state \<open>contains\<close> returns false for every value,
  \<open>add\<close> returns true for every value, \<open>remove\<close> returns false for every value, and
  \<open>size()\<close> is the number of \<open>add\<close> calls made so far.
\<close>

theorem root_stays_null:
  "root (run newTree cs) = Null
   \<and> contains (run newTree cs) v = False
   \<and> fst (add (run newTree cs) v) = True
   \<and> fst (remove (run newTree cs) v) = False
   \<and> size_bst (run newTree cs) = int (length (filter isAdd cs))"
proof -
  have r: "root (run newTree cs) = Null"
    by (rule root_run_Null) (simp add: newTree_def)
  have c: "contains (run newTree cs) v = False"
    by (simp add: contains_def r)
  have n: "nodeCount (run newTree cs) = nodeCount (newTree :: 'a BinarySearchTree) + int (length (filter isAdd cs))"
    by (rule nodeCount_run_Null) (simp add: newTree_def)
  show ?thesis
    using r c n by (simp add: add_def remove_def size_bst_def newTree_def)
qed

theorem root_stays_null_witness:
  "root (run newTree [Add (5::int), Add 3, Remove 5, Add 5]) = Null
   \<and> contains (run newTree [Add (5::int), Add 3, Remove 5, Add 5]) 3 = False
   \<and> fst (add (run newTree [Add (5::int), Add 3, Remove 5, Add 5]) 3) = True
   \<and> fst (remove (run newTree [Add (5::int), Add 3, Remove 5, Add 5]) 3) = False
   \<and> size_bst (run newTree [Add (5::int), Add 3, Remove 5, Add 5]) = 3"
  using root_stays_null [of "[Add (5::int), Add 3, Remove 5, Add 5]" 3]
  by simp

text \<open>
  On every state, not only on the reachable ones, \<open>add\<close> of a value that is not
  contained changes the counter alone.
\<close>

lemma add_absent:
  "\<not> contains t v \<Longrightarrow> add t v = (True, \<lparr>nodeCount = nodeCount t + 1, root = root t\<rparr>)"
  by (simp add: add_def recursiveAdd_id)

section \<open>What insertion does on concrete inputs\<close>

text \<open>
  C1. \<open>add(v)\<close> of a value that is not contained is to create a leaf holding \<open>v\<close>,
  reachable from the root afterwards. On a new tree \<open>add(5)\<close> returns true and
  increments the counter, but the root is still \<open>null\<close>: no node is reachable and
  \<open>contains(5)\<close> is false.
\<close>

theorem add_new_tree_no_node:
  "add newTree (5::int) = (True, \<lparr>nodeCount = 1, root = Null\<rparr>)
   \<and> countNodes (root (snd (add newTree (5::int)))) = 0
   \<and> contains (snd (add newTree (5::int))) 5 = False"
  by (simp add: add_def newTree_def contains_def)

text \<open>
  C2. After \<open>add(1)\<close>, \<open>add(2)\<close>, \<open>add(3)\<close> on a new tree, \<open>size()\<close> is 3 as
  claimed, but \<open>contains\<close> is false for each of the three values.
\<close>

theorem adds_not_contained:
  "size_bst (run newTree [Add (1::int), Add 2, Add 3]) = 3
   \<and> contains (run newTree [Add (1::int), Add 2, Add 3]) 1 = False
   \<and> contains (run newTree [Add (1::int), Add 2, Add 3]) 2 = False
   \<and> contains (run newTree [Add (1::int), Add 2, Add 3]) 3 = False"
  by (simp add: add_def newTree_def contains_def size_bst_def)

text \<open>
  C3. The counter is to equal the number of nodes reachable from the root, and to be 0
  exactly when the root is absent. After \<open>add(1)\<close> on a new tree the counter is 1, the
  root is \<open>null\<close> and no node is reachable.
\<close>

theorem nodeCount_not_reachable_count:
  "nodeCount (run newTree [Add (1::int)]) = 1
   \<and> root (run newTree [Add (1::int)]) = Null
   \<and> countNodes (root (run newTree [Add (1::int)])) = 0"
  by (simp add: add_def newTree_def contains_def)

text \<open>
  C7. Adding every value of a set to a new tree and then removing every one of them is
  to leave an empty tree. After \<open>add(1)\<close>, \<open>add(2)\<close>, \<open>remove(2)\<close>, \<open>remove(1)\<close>
  both removals have returned false, \<open>size()\<close> is 2 and \<open>isEmpty()\<close> is false.
\<close>

theorem add_all_remove_all_not_empty:
  "fst (remove (run newTree [Add (1::int), Add 2]) 2) = False
   \<and> fst (remove (run newTree [Add (1::int), Add 2, Remove 2]) 1) = False
   \<and> size_bst (run newTree [Add (1::int), Add 2, Remove 2, Remove 1]) = 2
   \<and> isEmpty (run newTree [Add (1::int), Add 2, Remove 2, Remove 1]) = False"
  by (simp add: add_def remove_def newTree_def contains_def size_bst_def isEmpty_def)

text \<open>
  C8. \<open>height()\<close> is 0 on a new tree, as claimed. It is to be 1 after one insertion and
  \<open>n\<close> after \<open>n\<close> insertions in strictly increasing order; it is 0 after
  \<open>add(1)\<close> and 0 after \<open>add(1)\<close>, \<open>add(2)\<close>, \<open>add(3)\<close>.
\<close>

theorem height_after_adds:
  "height (newTree :: int BinarySearchTree) = 0
   \<and> height (run newTree [Add (1::int)]) = 0
   \<and> height (run newTree [Add (1::int), Add 2, Add 3]) = 0"
  by (simp add: add_def newTree_def contains_def height_def)

text \<open>
  C9. The scenario of the specification: after inserting 5, 3, 8, 1, 4, 7, 9 into a new
  tree, \<open>size()\<close> is 7 and \<open>contains(6)\<close> is false as claimed, but \<open>height()\<close> is
  0 (claimed 3) and \<open>contains(4)\<close> is false (claimed true); \<open>remove(8)\<close> then
  returns false, after which \<open>size()\<close> is 7 (claimed 6), \<open>contains(8)\<close> is false as
  claimed and \<open>contains(9)\<close> is false (claimed true).
\<close>

theorem scenario_5_3_8_1_4_7_9:
  "size_bst (run newTree [Add (5::int), Add 3, Add 8, Add 1, Add 4, Add 7, Add 9]) = 7
   \<and> height (run newTree [Add (5::int), Add 3, Add 8, Add 1, Add 4, Add 7, Add 9]) = 0
   \<and> contains (run newTree [Add (5::int), Add 3, Add 8, Add 1, Add 4, Add 7, Add 9]) 4 = False
   \<and> contains (run newTree [Add (5::int), Add 3, Add 8, Add 1, Add 4, Add 7, Add 9]) 6 = False
   \<and> fst (remove (run newTree [Add (5::int), Add 3, Add 8, Add 1, Add 4, Add 7, Add 9]) 8) = False
   \<and> size_bst (run newTree [Add (5::int), Add 3, Add 8, Add 1, Add 4, Add 7, Add 9, Remove 8]) = 7
   \<and> contains (run newTree [Add (5::int), Add 3, Add 8, Add 1, Add 4, Add 7, Add 9, Remove 8]) 8 = False
   \<and> contains (run newTree [Add (5::int), Add 3, Add 8, Add 1, Add 4, Add 7, Add 9, Remove 8]) 9 = False"
  by (simp add: add_def remove_def newTree_def contains_def size_bst_def height_def)

section \<open>Calls that change nothing\<close>

text \<open>
  C5. On every tree state, \<open>remove(v)\<close> of a value with \<open>contains(v)\<close> false returns
  false and leaves the state as it is: the same root with the same nodes and links, and
  the same counter.
\<close>

theorem remove_absent:
  "\<not> contains t v \<Longrightarrow> remove t v = (False, t)"
  by (simp add: remove_def)

theorem remove_absent_witness:
  "\<not> contains \<lparr>nodeCount = 2, root = Ref (Node (Ref (Node Null 1 Undefined)) (2::int) Null)\<rparr> 3
   \<and> remove \<lparr>nodeCount = 2, root = Ref (Node (Ref (Node Null 1 Undefined)) (2::int) Null)\<rparr> 3
       = (False, \<lparr>nodeCount = 2, root = Ref (Node (Ref (Node Null 1 Undefined)) 2 Null)\<rparr>)"
  using remove_absent
    [of "\<lparr>nodeCount = 2, root = Ref (Node (Ref (Node Null 1 Undefined)) (2::int) Null)\<rparr>" 3]
  by (simp add: contains_def)

text \<open>
  C6. On every tree state, \<open>add(v)\<close> of a value with \<open>contains(v)\<close> true returns
  false and leaves the state as it is, \<open>size()\<close> included.
\<close>

theorem add_present:
  "contains t v \<Longrightarrow> add t v = (False, t) \<and> size_bst (snd (add t v)) = size_bst t"
  by (simp add: add_def)

theorem add_present_witness:
  "contains \<lparr>nodeCount = 2, root = Ref (Node (Ref (Node Null 1 Undefined)) (2::int) Null)\<rparr> 1
   \<and> add \<lparr>nodeCount = 2, root = Ref (Node (Ref (Node Null 1 Undefined)) (2::int) Null)\<rparr> 1
       = (False, \<lparr>nodeCount = 2, root = Ref (Node (Ref (Node Null 1 Undefined)) 2 Null)\<rparr>)
   \<and> size_bst (snd (add \<lparr>nodeCount = 2, root = Ref (Node (Ref (Node Null 1 Undefined)) (2::int) Null)\<rparr> 1)) = 2"
  using add_present
    [of "\<lparr>nodeCount = 2, root = Ref (Node (Ref (Node Null 1 Undefined)) (2::int) Null)\<rparr>" 1]
  by (simp add: contains_def size_bst_def)

section \<open>Removal from a valid binary search tree\<close>

lemma contains_elems: "bst t \<Longrightarrow> recursiveContains t e = (e \<in> elems t)"
  by (induction t e rule: recursiveContains.induct) auto

lemma findMin_in: "data (findMin n) \<in> elems (Ref n)"
  by (induction n rule: findMin.induct) auto

lemma findMin_le: "bst (Ref n) \<Longrightarrow> x \<in> elems (Ref n) \<Longrightarrow> data (findMin n) \<le> x"
proof (induction n rule: findMin.induct)
  case (1 n d r)
  have m: "data (findMin n) \<in> elems (Ref n)"
    by (rule findMin_in)
  from "1.prems" m have "data (findMin n) < d"
    by simp
  moreover from "1.prems" have "x \<in> elems (Ref n) \<or> d \<le> x"
    by auto
  moreover from "1.prems" "1.IH" have "x \<in> elems (Ref n) \<Longrightarrow> data (findMin n) \<le> x"
    by simp
  ultimately show ?case
    by auto
next
  case (2 d r)
  then show ?case by auto
next
  case (3 d r)
  then show ?case by auto
qed

lemma elems_recursiveRemove:
  "bst t \<Longrightarrow> elems (recursiveRemove t e) = elems t - {e}"
proof (induction t e rule: recursiveRemove.induct)
  case (1 elem)
  show ?case by simp
next
  case (2 elem)
  show ?case by simp
next
  case (3 l d r elem)
  from "3.prems" have bl: "bst l" and br: "bst r"
    and ll: "\<forall>x \<in> elems l. x < d" and rr: "\<forall>x \<in> elems r. d < x"
    by simp_all
  consider (lt) "elem < d" | (gt) "d < elem" | (eq) "elem = d"
    by (rule linorder_cases)
  then show ?case
  proof cases
    case lt
    with "3.IH"(1) bl have "elems (recursiveRemove l elem) = elems l - {elem}"
      by simp
    with lt rr show ?thesis by auto
  next
    case gt
    with "3.IH"(2) br have "elems (recursiveRemove r elem) = elems r - {elem}"
      by simp
    with gt ll show ?thesis by auto
  next
    case eq
    show ?thesis
    proof (cases "\<exists>ln rn. l = Ref ln \<and> r = Ref rn")
      case False
      with eq ll rr show ?thesis
        by (cases l; cases r) auto
    next
      case True
      then obtain ln rn where l: "l = Ref ln" and r: "r = Ref rn"
        by blast
      let ?m = "data (findMin rn)"
      have m: "?m \<in> elems r"
        unfolding r by (rule findMin_in)
      from "3.IH"(3) [OF _ _ l r] eq br r
      have "elems (recursiveRemove r ?m) = elems r - {?m}"
        by simp
      with eq l r m ll rr show ?thesis
        by auto
    qed
  qed
qed

lemma bst_recursiveRemove: "bst t \<Longrightarrow> bst (recursiveRemove t e)"
proof (induction t e rule: recursiveRemove.induct)
  case (1 elem)
  show ?case by simp
next
  case (2 elem)
  show ?case by simp
next
  case (3 l d r elem)
  from "3.prems" have bl: "bst l" and br: "bst r"
    and ll: "\<forall>x \<in> elems l. x < d" and rr: "\<forall>x \<in> elems r. d < x"
    by simp_all
  consider (lt) "elem < d" | (gt) "d < elem" | (eq) "elem = d"
    by (rule linorder_cases)
  then show ?case
  proof cases
    case lt
    with "3.IH"(1) bl have "bst (recursiveRemove l elem)"
      by simp
    with lt bl br ll rr show ?thesis
      by (simp add: elems_recursiveRemove)
  next
    case gt
    with "3.IH"(2) br have "bst (recursiveRemove r elem)"
      by simp
    moreover from gt have "\<not> elem < d"
      by simp
    ultimately show ?thesis
      using gt bl br ll rr by (simp add: elems_recursiveRemove)
  next
    case eq
    show ?thesis
    proof (cases "\<exists>ln rn. l = Ref ln \<and> r = Ref rn")
      case False
      with eq bl br show ?thesis
        by (cases l; cases r) auto
    next
      case True
      then obtain ln rn where l: "l = Ref ln" and r: "r = Ref rn"
        by blast
      let ?m = "data (findMin rn)"
      have m: "?m \<in> elems r"
        unfolding r by (rule findMin_in)
      have least: "\<forall>x \<in> elems r. ?m \<le> x"
        using br unfolding r by (blast intro: findMin_le)
      from "3.IH"(3) [OF _ _ l r] eq br r
      have b: "bst (recursiveRemove r ?m)"
        by simp
      have e: "elems (recursiveRemove r ?m) = elems r - {?m}"
        using br by (rule elems_recursiveRemove)
      have "\<forall>x \<in> elems l. x < ?m"
        using ll rr m by fastforce
      moreover have "\<forall>x \<in> elems (recursiveRemove r ?m). ?m < x"
        using least e by fastforce
      ultimately show ?thesis
        using eq l r bl b by simp
    qed
  qed
qed

text \<open>
  C4. On every tree state whose root is a valid binary search tree and for every value
  \<open>v\<close> with \<open>contains(v)\<close> true, \<open>remove(v)\<close> returns true, \<open>size()\<close> is one less
  afterwards, and \<open>contains(v)\<close> is false afterwards.
\<close>

theorem remove_present:
  "bst (root t) \<Longrightarrow> contains t v \<Longrightarrow>
     fst (remove t v) = True
     \<and> size_bst (snd (remove t v)) = size_bst t - 1
     \<and> contains (snd (remove t v)) v = False"
proof -
  assume b: "bst (root t)" and c: "contains t v"
  have "bst (recursiveRemove (root t) v)"
    using b by (rule bst_recursiveRemove)
  then have "recursiveContains (recursiveRemove (root t) v) v
      = (v \<in> elems (recursiveRemove (root t) v))"
    by (rule contains_elems)
  also have "\<dots> = False"
    using b by (simp add: elems_recursiveRemove)
  finally show ?thesis
    using c by (simp add: remove_def size_bst_def contains_def)
qed

theorem remove_present_witness:
  "bst (root \<lparr>nodeCount = 3,
       root = Ref (Node (Ref (Node Null 1 Null)) (2::int) (Ref (Node Undefined 3 Null)))\<rparr>)
   \<and> contains \<lparr>nodeCount = 3,
       root = Ref (Node (Ref (Node Null 1 Null)) (2::int) (Ref (Node Undefined 3 Null)))\<rparr> 2
   \<and> remove \<lparr>nodeCount = 3,
       root = Ref (Node (Ref (Node Null 1 Null)) (2::int) (Ref (Node Undefined 3 Null)))\<rparr> 2
       = (True, \<lparr>nodeCount = 2, root = Ref (Node (Ref (Node Null 1 Null)) 3 Null)\<rparr>)
   \<and> contains \<lparr>nodeCount = 2, root = Ref (Node (Ref (Node Null 1 Null)) (3::int) Null)\<rparr> 2
       = False"
  using remove_present
    [of "\<lparr>nodeCount = 3,
       root = Ref (Node (Ref (Node Null 1 Null)) (2::int) (Ref (Node Undefined 3 Null)))\<rparr>" 2]
  by (simp add: remove_def contains_def)

end
